theory Spec2Isabelle
  imports Complex_Main "HOL-Library.Sublist"
begin

section \<open>JavaScript values\<close>

text \<open>
  The handlers of \<^verbatim>\<open>src/index.js\<close> pass JavaScript values between the document store,
  the cache and the HTTP response. A value is \<^verbatim>\<open>undefined\<close>, \<^verbatim>\<open>null\<close>, a boolean, a number, a
  string, a \<^verbatim>\<open>Date\<close>, an \<^verbatim>\<open>ObjectId\<close> of the store's driver, an array or an object.
  A number is carried by the rational it stands for, so that every finite \<^verbatim>\<open>Number\<close> is a
  value here, a price such as 9.99 among them; strings are over 8-bit characters; a
  \<^verbatim>\<open>Date\<close> is carried by the text its \<^verbatim>\<open>toJSON\<close> gives and an \<^verbatim>\<open>ObjectId\<close> by the number it
  was drawn from; an object is the list of its own properties in insertion order, with
  distinct keys.
\<close>

datatype jsval =
    JUndefined
  | JNull
  | JBool bool
  | JNum rat
  | JStr string
  | JDate string
  | JObjectId nat
  | JArr "jsval list"
  | JObj "(string \<times> jsval) list"

type_synonym doc = "(string \<times> jsval) list"

text \<open>A thrown \<^verbatim>\<open>Error\<close>, carried by its \<^verbatim>\<open>message\<close>.\<close>

datatype jserror = JSError string

fun message :: "jserror \<Rightarrow> string" where
  "message (JSError m) = m"

text \<open>
  \<^verbatim>\<open>JSON.stringify\<close> and \<^verbatim>\<open>JSON.parse\<close> are the language's own, not the repository's: the
  handlers are taken over any pair of them, \<open>stringify J\<close> giving the text of a value and
  \<open>parse J\<close> giving the value of a text or throwing. Nothing is assumed of them here;
  what a statement needs of them, it says.
\<close>

record JSON =
  stringify :: "jsval \<Rightarrow> string"
  parse :: "string \<Rightarrow> jserror + jsval"

section \<open>The external collaborators\<close>

text \<open>
  The calls a handler makes to the cache client (\<^verbatim>\<open>redis\<close>) and to the store's collection
  (\<^verbatim>\<open>productsCollection\<close>), with their arguments, and what a handler leaves in the world:
  each call with its outcome, and each console line, in the order they happen. Every call
  is awaited before the next statement runs, so the position of \<open>Returned c\<close> in the list
  is the moment the call \<open>c\<close> was acknowledged.
\<close>

datatype call =
    RedisGet string
  | RedisSet string string nat
  | RedisDel string
  | Find
  | FindOne string
  | FindRegex string
  | InsertOne doc
  | InsertMany "doc list"
  | UpdateOne string doc
  | DeleteOne string
  | Aggregate

datatype event =
    Returned call
  | Threw call jserror
  | ConsoleLog string
  | ConsoleError string jserror

text \<open>
  The world: the cache (key to value and the instant the entry expires), a clock in
  seconds, the documents of the collection in their natural order, the counter the driver
  draws fresh \<^verbatim>\<open>ObjectId\<close>s from, the failures of the collaborators (\<open>faults w c = Some e\<close>:
  the call \<open>c\<close> rejects with \<open>e\<close>, whatever the reason: connection lost, timeout,
  validation), whether the cache server carries out a write whose call rejects (the
  reply may be what was lost), and the events so far.
\<close>

record world =
  redis :: "string \<rightharpoonup> string \<times> nat"
  clock :: nat
  productsCollection :: "jsval list"
  next_oid :: nat
  faults :: "call \<Rightarrow> jserror option"
  applied :: "call \<Rightarrow> bool"
  events :: "event list"

definition emit :: "event \<Rightarrow> world \<Rightarrow> world" where
  "emit ev w = w\<lparr>events := events w @ [ev]\<rparr>"


subsection \<open>The cache client\<close>

text \<open>What the cache holds under a key now: an entry that has not expired.\<close>

definition cached :: "world \<Rightarrow> string \<Rightarrow> string option" where
  "cached w key =
     (case redis w key of
        None \<Rightarrow> None
      | Some (v, expiry) \<Rightarrow> if clock w < expiry then Some v else None)"

definition redis_get :: "string \<Rightarrow> world \<Rightarrow> (jserror + string option) \<times> world" where
  "redis_get key w =
     (case faults w (RedisGet key) of
        Some e \<Rightarrow> (Inl e, emit (Threw (RedisGet key) e) w)
      | None \<Rightarrow> (Inr (cached w key), emit (Returned (RedisGet key)) w))"

text \<open>
  \<^verbatim>\<open>redis.set(key, value, 'EX', ttl)\<close> and \<^verbatim>\<open>redis.del(key)\<close>. A write that rejects has
  been carried out by the server or has not: the client cannot tell.
\<close>

definition after_set :: "string \<Rightarrow> string \<Rightarrow> nat \<Rightarrow> world \<Rightarrow> world" where
  "after_set key v ttl w = w\<lparr>redis := (redis w)(key \<mapsto> (v, clock w + ttl))\<rparr>"

definition after_del :: "string \<Rightarrow> world \<Rightarrow> world" where
  "after_del key w = w\<lparr>redis := (redis w)(key := None)\<rparr>"

definition redis_set :: "string \<Rightarrow> string \<Rightarrow> nat \<Rightarrow> world \<Rightarrow> (jserror + unit) \<times> world" where
  "redis_set key v ttl w =
     (case faults w (RedisSet key v ttl) of
        Some e \<Rightarrow>
          (Inl e, emit (Threw (RedisSet key v ttl) e)
                    (if applied w (RedisSet key v ttl) then after_set key v ttl w else w))
      | None \<Rightarrow> (Inr (), emit (Returned (RedisSet key v ttl)) (after_set key v ttl w)))"

definition redis_del :: "string \<Rightarrow> world \<Rightarrow> (jserror + unit) \<times> world" where
  "redis_del key w =
     (case faults w (RedisDel key) of
        Some e \<Rightarrow>
          (Inl e, emit (Threw (RedisDel key) e) (if applied w (RedisDel key) then after_del key w else w))
      | None \<Rightarrow> (Inr (), emit (Returned (RedisDel key)) (after_del key w)))"

subsection \<open>The collection\<close>

definition field :: "string \<Rightarrow> jsval \<Rightarrow> jsval option" where
  "field k d = (case d of JObj kvs \<Rightarrow> map_of kvs k | _ \<Rightarrow> None)"

text \<open>The filter \<^verbatim>\<open>{ _id: id }\<close> with the route parameter, a string.\<close>

definition has_id :: "string \<Rightarrow> jsval \<Rightarrow> bool" where
  "has_id ident d \<longleftrightarrow> field ''_id'' d = Some (JStr ident)"

text \<open>\<^verbatim>\<open>productsCollection.find({}).toArray()\<close>\<close>

definition find_all :: "world \<Rightarrow> (jserror + jsval list) \<times> world" where
  "find_all w =
     (case faults w Find of
        Some e \<Rightarrow> (Inl e, emit (Threw Find e) w)
      | None \<Rightarrow> (Inr (productsCollection w), emit (Returned Find) w))"

text \<open>\<^verbatim>\<open>productsCollection.findOne({ _id: id })\<close>: the first match, or \<^verbatim>\<open>null\<close>.\<close>

definition findOne :: "string \<Rightarrow> world \<Rightarrow> (jserror + jsval option) \<times> world" where
  "findOne ident w =
     (case faults w (FindOne ident) of
        Some e \<Rightarrow> (Inl e, emit (Threw (FindOne ident) e) w)
      | None \<Rightarrow> (Inr (find (has_id ident) (productsCollection w)), emit (Returned (FindOne ident)) w))"

text \<open>
  The driver gives a document without \<^verbatim>\<open>_id\<close> a fresh \<^verbatim>\<open>ObjectId\<close>; the store refuses a
  document whose \<^verbatim>\<open>_id\<close> is already there.
\<close>

definition with_id :: "nat \<Rightarrow> doc \<Rightarrow> doc" where
  "with_id n body =
     (case map_of body ''_id'' of
        None \<Rightarrow> (''_id'', JObjectId n) # body
      | Some _ \<Rightarrow> body)"

definition duplicate_key :: "doc \<Rightarrow> jsval list \<Rightarrow> bool" where
  "duplicate_key d ds \<longleftrightarrow> (\<exists>x \<in> set ds. field ''_id'' x = map_of d ''_id'')"

text \<open>\<^verbatim>\<open>productsCollection.insertOne(body)\<close>: the result carries the inserted id.\<close>

definition insertOne :: "doc \<Rightarrow> world \<Rightarrow> (jserror + jsval) \<times> world" where
  "insertOne body w =
     (case faults w (InsertOne body) of
        Some e \<Rightarrow> (Inl e, emit (Threw (InsertOne body) e) w)
      | None \<Rightarrow>
          let d = with_id (next_oid w) body in
          if duplicate_key d (productsCollection w) then
            (Inl (JSError ''E11000 duplicate key error''),
             emit (Threw (InsertOne body) (JSError ''E11000 duplicate key error'')) w)
          else
            (Inr (JObj [(''acknowledged'', JBool True), (''insertedId'', the (map_of d ''_id''))]),
             emit (Returned (InsertOne body))
               (w\<lparr>productsCollection := productsCollection w @ [JObj d], next_oid := Suc (next_oid w)\<rparr>)))"

text \<open>
  \<^verbatim>\<open>productsCollection.insertMany(docs)\<close>, ordered: the documents go in one by one, and the
  first refused one ends the call with an error, the earlier ones staying inserted.
\<close>

fun insert_each :: "doc list \<Rightarrow> nat \<Rightarrow> jsval list \<Rightarrow> (jserror option \<times> nat \<times> jsval list)" where
  "insert_each [] n ds = (None, n, ds)"
| "insert_each (b # bs) n ds =
     (let d = with_id n b in
      if duplicate_key d ds then (Some (JSError ''E11000 duplicate key error''), n, ds)
      else insert_each bs (Suc n) (ds @ [JObj d]))"

definition insertMany :: "doc list \<Rightarrow> world \<Rightarrow> (jserror + nat) \<times> world" where
  "insertMany bodies w =
     (case faults w (InsertMany bodies) of
        Some e \<Rightarrow> (Inl e, emit (Threw (InsertMany bodies) e) w)
      | None \<Rightarrow>
          (case insert_each bodies (next_oid w) (productsCollection w) of
             (Some e, n, ds) \<Rightarrow>
               (Inl e, emit (Threw (InsertMany bodies) e) (w\<lparr>productsCollection := ds, next_oid := n\<rparr>))
           | (None, n, ds) \<Rightarrow>
               (Inr (length bodies),
                emit (Returned (InsertMany bodies)) (w\<lparr>productsCollection := ds, next_oid := n\<rparr>))))"

text \<open>
  \<^verbatim>\<open>{ $set: patch }\<close> on one document: a field that is there takes the new value in
  place, a new field goes to the end (field names are plain, with no path syntax).
\<close>

fun set_field :: "string \<Rightarrow> jsval \<Rightarrow> doc \<Rightarrow> doc" where
  "set_field k v [] = [(k, v)]"
| "set_field k v ((k', v') # kvs) = (if k = k' then (k, v) # kvs else (k', v') # set_field k v kvs)"

definition apply_set :: "doc \<Rightarrow> jsval \<Rightarrow> jsval" where
  "apply_set patch d = (case d of JObj kvs \<Rightarrow> JObj (fold (\<lambda>(k, v). set_field k v) patch kvs) | _ \<Rightarrow> d)"

fun update_first :: "('a \<Rightarrow> bool) \<Rightarrow> ('a \<Rightarrow> 'a) \<Rightarrow> 'a list \<Rightarrow> 'a list" where
  "update_first P f [] = []"
| "update_first P f (x # xs) = (if P x then f x # xs else x # update_first P f xs)"

fun remove_first :: "('a \<Rightarrow> bool) \<Rightarrow> 'a list \<Rightarrow> 'a list" where
  "remove_first P [] = []"
| "remove_first P (x # xs) = (if P x then xs else x # remove_first P xs)"

text \<open>The result of \<^verbatim>\<open>updateOne\<close> and of \<^verbatim>\<open>deleteOne\<close>, as the driver returns them.\<close>

definition UpdateResult :: "nat \<Rightarrow> nat \<Rightarrow> jsval" where
  "UpdateResult matched modified =
     JObj [(''acknowledged'', JBool True), (''modifiedCount'', JNum (of_nat modified)),
           (''upsertedId'', JNull), (''upsertedCount'', JNum 0), (''matchedCount'', JNum (of_nat matched))]"

definition DeleteResult :: "nat \<Rightarrow> jsval" where
  "DeleteResult deleted = JObj [(''acknowledged'', JBool True), (''deletedCount'', JNum (of_nat deleted))]"

text \<open>
  \<^verbatim>\<open>productsCollection.updateOne({ _id: id }, { $set: patch })\<close>: the first match is
  patched; the store refuses a patch that would change the \<^verbatim>\<open>_id\<close> of the match.
\<close>

definition changes_id :: "doc \<Rightarrow> string \<Rightarrow> bool" where
  "changes_id patch ident = (case map_of patch ''_id'' of None \<Rightarrow> False | Some v \<Rightarrow> v \<noteq> JStr ident)"

definition updateOne :: "string \<Rightarrow> doc \<Rightarrow> world \<Rightarrow> (jserror + jsval) \<times> world" where
  "updateOne ident patch w =
     (case faults w (UpdateOne ident patch) of
        Some e \<Rightarrow> (Inl e, emit (Threw (UpdateOne ident patch) e) w)
      | None \<Rightarrow>
          (case find (has_id ident) (productsCollection w) of
             None \<Rightarrow> (Inr (UpdateResult 0 0), emit (Returned (UpdateOne ident patch)) w)
           | Some d \<Rightarrow>
               if changes_id patch ident then
                 (Inl (JSError ''Performing an update on the path _id would modify the immutable field _id''),
                  emit (Threw (UpdateOne ident patch)
                          (JSError ''Performing an update on the path _id would modify the immutable field _id'')) w)
               else
                 (Inr (UpdateResult 1 (if apply_set patch d = d then 0 else 1)),
                  emit (Returned (UpdateOne ident patch))
                    (w\<lparr>productsCollection :=
                         update_first (has_id ident) (apply_set patch) (productsCollection w)\<rparr>))))"

text \<open>\<^verbatim>\<open>productsCollection.deleteOne({ _id: id })\<close>\<close>

definition deleteOne :: "string \<Rightarrow> world \<Rightarrow> (jserror + jsval) \<times> world" where
  "deleteOne ident w =
     (case faults w (DeleteOne ident) of
        Some e \<Rightarrow> (Inl e, emit (Threw (DeleteOne ident) e) w)
      | None \<Rightarrow>
          (case find (has_id ident) (productsCollection w) of
             None \<Rightarrow> (Inr (DeleteResult 0), emit (Returned (DeleteOne ident)) w)
           | Some d \<Rightarrow>
               (Inr (DeleteResult 1),
                emit (Returned (DeleteOne ident))
                  (w\<lparr>productsCollection := remove_first (has_id ident) (productsCollection w)\<rparr>))))"

subsection \<open>The aggregation of \<^verbatim>\<open>GET /stats\<close>\<close>

text \<open>
  The pipeline has one stage, \<^verbatim>\<open>$group\<close> with \<^verbatim>\<open>_id: null\<close>: all documents form one
  group, and a collection with no document gives no group at all. The accumulators:
  \<^verbatim>\<open>$sum: 1\<close> counts the documents; \<^verbatim>\<open>$avg: '$price'\<close> is the mean of the numeric
  prices (the exact one here, which the store rounds to a number of its own), \<^verbatim>\<open>null\<close>
  when there is none; \<^verbatim>\<open>$min\<close> and \<^verbatim>\<open>$max\<close> of \<^verbatim>\<open>'$price'\<close> compare the
  prices that are present and not \<^verbatim>\<open>null\<close> in the store's order of values, which is a
  parameter \<open>lt\<close> here, and are \<^verbatim>\<open>null\<close> when there is none; \<^verbatim>\<open>$push\<close> appends, for each
  document in turn, the object \<^verbatim>\<open>{ category: '$category', count: 1 }\<close>, without the
  field \<^verbatim>\<open>category\<close> when the document has none. The \<^verbatim>\<open>_id\<close> of the group, \<^verbatim>\<open>null\<close>, is
  not carried in the record.
\<close>

record stats =
  totalProducts :: nat
  avgPrice :: "rat option"
  minPrice :: jsval
  maxPrice :: jsval
  categoryCounts :: "jsval list"

definition numeric_prices :: "jsval list \<Rightarrow> rat list" where
  "numeric_prices ds = concat (map (\<lambda>d. case field ''price'' d of Some (JNum n) \<Rightarrow> [n] | _ \<Rightarrow> []) ds)"

definition present_prices :: "jsval list \<Rightarrow> jsval list" where
  "present_prices ds =
     concat (map (\<lambda>d. case field ''price'' d of
                         None \<Rightarrow> [] | Some JNull \<Rightarrow> [] | Some JUndefined \<Rightarrow> [] | Some v \<Rightarrow> [v]) ds)"

definition avg :: "rat list \<Rightarrow> rat option" where
  "avg ns = (if ns = [] then None else Some (sum_list ns / of_nat (length ns)))"

definition least :: "(jsval \<Rightarrow> jsval \<Rightarrow> bool) \<Rightarrow> jsval list \<Rightarrow> jsval" where
  "least lt vs = (case vs of [] \<Rightarrow> JNull | v # rest \<Rightarrow> fold (\<lambda>x m. if lt x m then x else m) rest v)"

definition greatest :: "(jsval \<Rightarrow> jsval \<Rightarrow> bool) \<Rightarrow> jsval list \<Rightarrow> jsval" where
  "greatest lt vs = (case vs of [] \<Rightarrow> JNull | v # rest \<Rightarrow> fold (\<lambda>x m. if lt m x then x else m) rest v)"

definition pushed :: "jsval \<Rightarrow> jsval" where
  "pushed d =
     JObj ((case field ''category'' d of None \<Rightarrow> [] | Some c \<Rightarrow> [(''category'', c)]) @ [(''count'', JNum 1)])"

definition group_all :: "(jsval \<Rightarrow> jsval \<Rightarrow> bool) \<Rightarrow> jsval list \<Rightarrow> stats list" where
  "group_all lt ds =
     (if ds = [] then []
      else [\<lparr>totalProducts = length ds,
             avgPrice = avg (numeric_prices ds),
             minPrice = least lt (present_prices ds),
             maxPrice = greatest lt (present_prices ds),
             categoryCounts = map pushed ds\<rparr>])"

definition aggregate :: "(jsval \<Rightarrow> jsval \<Rightarrow> bool) \<Rightarrow> world \<Rightarrow> (jserror + stats list) \<times> world" where
  "aggregate lt w =
     (case faults w Aggregate of
        Some e \<Rightarrow> (Inl e, emit (Threw Aggregate e) w)
      | None \<Rightarrow> (Inr (group_all lt (productsCollection w)), emit (Returned Aggregate) w))"

subsection \<open>The search of \<^verbatim>\<open>GET /products/search/:query\<close>\<close>











section \<open>The request handlers\<close>

text \<open>
  What a handler sends: the status and the value it gives to \<^verbatim>\<open>res.json\<close>. Every handler
  is one \<^verbatim>\<open>try\<close> block whose \<^verbatim>\<open>catch\<close> writes the error to the console under the
  handler's label and answers 500 with \<^verbatim>\<open>{ error: error.message }\<close>. The middleware
  that writes the duration of each request to the console once the response is finished,
  \<^verbatim>\<open>GET /health\<close>, the start-up and the shutdown are left out.
\<close>

record 'b response =
  status :: nat
  body :: 'b

definition res_json :: "nat \<Rightarrow> 'b \<Rightarrow> 'b response" where
  "res_json code v = \<lparr>status = code, body = v\<rparr>"

definition error_body :: "jserror \<Rightarrow> jsval" where
  "error_body e = JObj [(''error'', JStr (message e))]"

definition catch :: "string \<Rightarrow> jserror \<Rightarrow> world \<Rightarrow> jsval response \<times> world" where
  "catch label e w = (res_json 500 (error_body e), emit (ConsoleError label e) w)"

text \<open>\<^verbatim>\<open>app.get('/products', ...)\<close>\<close>

definition get_products :: "world \<Rightarrow> jsval response \<times> world" where
  "get_products w0 =
     (case find_all w0 of
        (Inl e, w1) \<Rightarrow> catch ''Error en /products:'' e w1
      | (Inr products, w1) \<Rightarrow> (res_json 200 (JArr products), w1))"

text \<open>
  \<^verbatim>\<open>app.get('/products-cached', ...)\<close>. The test \<^verbatim>\<open>if (cachedProducts)\<close> is the language's
  truthiness: \<^verbatim>\<open>null\<close> and the empty string are false.
\<close>

definition get_products_cached :: "JSON \<Rightarrow> world \<Rightarrow> jsval response \<times> world" where
  "get_products_cached J w0 =
     (case redis_get ''products'' w0 of
        (Inl e, w1) \<Rightarrow> catch ''Error en /products-cached:'' e w1
      | (Inr cachedProducts, w1) \<Rightarrow>
          if cachedProducts \<noteq> None \<and> cachedProducts \<noteq> Some [] then
            (let w2 = emit (ConsoleLog ''Datos desde Redis cache'') w1 in
             case parse J (the cachedProducts) of
               Inl e \<Rightarrow> catch ''Error en /products-cached:'' e w2
             | Inr v \<Rightarrow> (res_json 200 v, w2))
          else
            (let w2 = emit (ConsoleLog ''Cache miss - Consultando MongoDB'') w1 in
             case find_all w2 of
               (Inl e, w3) \<Rightarrow> catch ''Error en /products-cached:'' e w3
             | (Inr products, w3) \<Rightarrow>
                 (case redis_set ''products'' (stringify J (JArr products)) 3600 w3 of
                    (Inl e, w4) \<Rightarrow> catch ''Error en /products-cached:'' e w4
                  | (Inr _, w4) \<Rightarrow> (res_json 200 (JArr products), w4))))"

text \<open>\<^verbatim>\<open>app.get('/products/:id', ...)\<close>\<close>

definition get_products_id :: "string \<Rightarrow> world \<Rightarrow> jsval response \<times> world" where
  "get_products_id ident w0 =
     (case findOne ident w0 of
        (Inl e, w1) \<Rightarrow> catch ''Error en /products/:id:'' e w1
      | (Inr None, w1) \<Rightarrow> (res_json 404 (JObj [(''message'', JStr ''Producto no encontrado'')]), w1)
      | (Inr (Some product), w1) \<Rightarrow> (res_json 200 product, w1))"

text \<open>\<^verbatim>\<open>app.post('/products', ...)\<close>, with \<^verbatim>\<open>req.body\<close>\<close>

definition post_products :: "doc \<Rightarrow> world \<Rightarrow> jsval response \<times> world" where
  "post_products req_body w0 =
     (case insertOne req_body w0 of
        (Inl e, w1) \<Rightarrow> catch ''Error al crear producto:'' e w1
      | (Inr result, w1) \<Rightarrow>
          (case redis_del ''products'' w1 of
             (Inl e, w2) \<Rightarrow> catch ''Error al crear producto:'' e w2
           | (Inr _, w2) \<Rightarrow> (res_json 201 result, w2)))"

text \<open>\<^verbatim>\<open>app.put('/products/:id', ...)\<close>, with \<^verbatim>\<open>req.params.id\<close> and \<^verbatim>\<open>req.body\<close>\<close>

definition put_products_id :: "string \<Rightarrow> doc \<Rightarrow> world \<Rightarrow> jsval response \<times> world" where
  "put_products_id ident req_body w0 =
     (case updateOne ident req_body w0 of
        (Inl e, w1) \<Rightarrow> catch ''Error al actualizar producto:'' e w1
      | (Inr result, w1) \<Rightarrow>
          (case redis_del ''products'' w1 of
             (Inl e, w2) \<Rightarrow> catch ''Error al actualizar producto:'' e w2
           | (Inr _, w2) \<Rightarrow> (res_json 200 result, w2)))"

text \<open>\<^verbatim>\<open>app.delete('/products/:id', ...)\<close>\<close>

definition delete_products_id :: "string \<Rightarrow> world \<Rightarrow> jsval response \<times> world" where
  "delete_products_id ident w0 =
     (case deleteOne ident w0 of
        (Inl e, w1) \<Rightarrow> catch ''Error al eliminar producto:'' e w1
      | (Inr result, w1) \<Rightarrow>
          (case redis_del ''products'' w1 of
             (Inl e, w2) \<Rightarrow> catch ''Error al eliminar producto:'' e w2
           | (Inr _, w2) \<Rightarrow> (res_json 200 result, w2)))"


text \<open>
  \<^verbatim>\<open>app.get('/stats', ...)\<close> answers \<^verbatim>\<open>stats[0]\<close>, the first element of the result, which is
  \<^verbatim>\<open>undefined\<close> for an empty result; \<^verbatim>\<open>res.json(undefined)\<close> sends the status with no body.
\<close>

datatype stats_body = Stats stats | Undefined | Failure jsval

definition get_stats :: "(jsval \<Rightarrow> jsval \<Rightarrow> bool) \<Rightarrow> world \<Rightarrow> stats_body response \<times> world" where
  "get_stats lt w0 =
     (case aggregate lt w0 of
        (Inl e, w1) \<Rightarrow> (res_json 500 (Failure (error_body e)), emit (ConsoleError (''Error en estad'' @ [CHR 0xC3, CHR 0xAD] @ ''sticas:'') e) w1)
      | (Inr stats, w1) \<Rightarrow>
          (res_json 200 (case stats of [] \<Rightarrow> Undefined | s # _ \<Rightarrow> Stats s), w1))"

text \<open>The decimal digits of a number, as a template literal writes the index \<^verbatim>\<open>i\<close>.\<close>

definition digit_char :: "nat \<Rightarrow> char" where
  "digit_char d = ''0123456789'' ! d"

fun show_nat :: "nat \<Rightarrow> string" where
  "show_nat n = (if n < 10 then [digit_char n] else show_nat (n div 10) @ [digit_char (n mod 10)])"

declare show_nat.simps [simp del]

text \<open>
  \<^verbatim>\<open>app.post('/populate', ...)\<close>. The thousand test products are built from the draws of
  \<^verbatim>\<open>Math.random\<close> and from the date of the request, which are inputs here: \<open>price i\<close>,
  \<open>pick i\<close> (the index into the four categories) and \<open>stock i\<close> for the product \<open>i\<close>.
\<close>

definition testProducts :: "(nat \<Rightarrow> rat) \<Rightarrow> (nat \<Rightarrow> nat) \<Rightarrow> (nat \<Rightarrow> bool) \<Rightarrow> string \<Rightarrow> doc list" where
  "testProducts price pick stock today =
     map (\<lambda>i. [(''name'', JStr (''Product '' @ show_nat i)),
               (''description'', JStr (''Description for product '' @ show_nat i)),
               (''price'', JNum (price i)),
               (''category'', JStr ([''Electronics'', ''Books'', ''Clothing'', ''Food''] ! (pick i mod 4))),
               (''inStock'', JBool (stock i)),
               (''createdAt'', JDate today)])
       [0 ..< 1000]"

definition post_populate ::
  "(nat \<Rightarrow> rat) \<Rightarrow> (nat \<Rightarrow> nat) \<Rightarrow> (nat \<Rightarrow> bool) \<Rightarrow> string \<Rightarrow> world \<Rightarrow> jsval response \<times> world" where
  "post_populate price pick stock today w0 =
     (case insertMany (testProducts price pick stock today) w0 of
        (Inl e, w1) \<Rightarrow> catch ''Error en /populate:'' e w1
      | (Inr insertedCount, w1) \<Rightarrow>
          (case redis_del ''products'' w1 of
             (Inl e, w2) \<Rightarrow> catch ''Error en /populate:'' e w2
           | (Inr _, w2) \<Rightarrow>
               (res_json 200 (JObj [(''message'', JStr ''Database populated successfully''),
                                    (''insertedCount'', JNum (of_nat insertedCount))]), w2)))"

text \<open>\<^verbatim>\<open>app.post('/clear-cache', ...)\<close>\<close>

definition post_clear_cache :: "world \<Rightarrow> jsval response \<times> world" where
  "post_clear_cache w0 =
     (case redis_del ''products'' w0 of
        (Inl e, w1) \<Rightarrow> catch ''Error clearing cache:'' e w1
      | (Inr _, w1) \<Rightarrow> (res_json 200 (JObj [(''message'', JStr ''Cache cleared successfully'')]), w1))"

section \<open>Reading a run\<close>

text \<open>The events a handler added, and among them the store queries and the cache writes.\<close>

definition added :: "world \<Rightarrow> world \<Rightarrow> event list" where
  "added w w' = drop (length (events w)) (events w')"

fun call_of :: "event \<Rightarrow> call option" where
  "call_of (Returned c) = Some c"
| "call_of (Threw c e) = Some c"
| "call_of _ = None"

fun is_store_query :: "call \<Rightarrow> bool" where
  "is_store_query Find = True"
| "is_store_query (FindOne _) = True"
| "is_store_query (FindRegex _) = True"
| "is_store_query Aggregate = True"
| "is_store_query _ = False"

fun is_cache_write :: "call \<Rightarrow> bool" where
  "is_cache_write (RedisSet _ _ _) = True"
| "is_cache_write (RedisDel _) = True"
| "is_cache_write _ = False"

definition calls :: "event list \<Rightarrow> call list" where
  "calls evs = List.map_filter call_of evs"

definition store_queries :: "event list \<Rightarrow> call list" where
  "store_queries evs = filter is_store_query (calls evs)"

definition cache_writes :: "event list \<Rightarrow> call list" where
  "cache_writes evs = filter is_cache_write (calls evs)"

text \<open>An awaited call returned rather than threw.\<close>

definition ok :: "('e + 'a) \<times> world \<Rightarrow> bool" where
  "ok x = (case fst x of Inr _ \<Rightarrow> True | Inl _ \<Rightarrow> False)"

section \<open>Notions of the specification\<close>

text \<open>A breakdown per category: each distinct category once, with its number of documents.\<close>

definition per_category :: "jsval list \<Rightarrow> (jsval \<times> nat) list" where
  "per_category ds =
     map (\<lambda>c. (c, length (filter (\<lambda>d. field ''category'' d = Some c) ds)))
       (remdups (concat (map (\<lambda>d. case field ''category'' d of None \<Rightarrow> [] | Some c \<Rightarrow> [c]) ds)))"



section \<open>Worlds to run the handlers in\<close>

text \<open>One document in the store, the cache empty or holding a listing.\<close>

definition w_miss :: world where
  "w_miss = \<lparr>redis = Map.empty, clock = 0,
             productsCollection = [JObj [(''_id'', JStr ''a''), (''price'', JNum 9.99)]],
             next_oid = 0, faults = (\<lambda>_. None), applied = (\<lambda>_. False), events = []\<rparr>"

definition w_hit :: world where
  "w_hit = w_miss\<lparr>redis := [''products'' \<mapsto> (''[]'', 3600)]\<rparr>"

text \<open>Worlds in which a collaborator fails, a request body and a date.\<close>

definition unreachable :: jserror where
  "unreachable = JSError ''Connection is closed.''"

definition w_get_down :: world where
  "w_get_down = w_hit\<lparr>faults := (\<lambda>c. case c of RedisGet k \<Rightarrow> Some unreachable | _ \<Rightarrow> None)\<rparr>"

definition w_set_down :: world where
  "w_set_down = w_miss\<lparr>faults := (\<lambda>c. case c of RedisSet k v t \<Rightarrow> Some unreachable | _ \<Rightarrow> None)\<rparr>"

definition w_del_down :: world where
  "w_del_down = w_hit\<lparr>faults := (\<lambda>c. case c of RedisDel k \<Rightarrow> Some unreachable | _ \<Rightarrow> None)\<rparr>"

definition w_store_down :: world where
  "w_store_down = w_hit\<lparr>faults := (\<lambda>c. case c of RedisGet k \<Rightarrow> None | RedisSet k v t \<Rightarrow> None
                                          | RedisDel k \<Rightarrow> None | _ \<Rightarrow> Some (JSError ''Server selection timed out''))\<rparr>"

definition widget :: doc where
  "widget = [(''name'', JStr ''Widget''), (''price'', JNum 9), (''category'', JStr ''Electronics'')]"

definition today0 :: string where
  "today0 = ''2024-01-01T00:00:00.000Z''"

text \<open>The store's order on numbers, for running the aggregation.\<close>

definition num_less :: "jsval \<Rightarrow> jsval \<Rightarrow> bool" where
  "num_less a b = (case (a, b) of (JNum x, JNum y) \<Rightarrow> x < y | _ \<Rightarrow> False)"

definition w_books :: world where
  "w_books = w_miss\<lparr>productsCollection :=
      [JObj [(''_id'', JObjectId 0), (''name'', JStr ''Dune''), (''price'', JNum 10), (''category'', JStr ''Books'')],
       JObj [(''_id'', JObjectId 1), (''name'', JStr ''Emma''), (''price'', JNum 20), (''category'', JStr ''Books'')]]\<rparr>"

definition w_bare :: world where
  "w_bare = w_miss\<lparr>productsCollection := []\<rparr>"


text \<open>The cache holding the empty string or a text that is no JSON, and a listing with a date.\<close>

definition w_blank :: world where
  "w_blank = w_miss\<lparr>redis := [''products'' \<mapsto> ([], 3600)]\<rparr>"

definition w_junk :: world where
  "w_junk = w_miss\<lparr>redis := [''products'' \<mapsto> (''oops'', 3600)]\<rparr>"

definition dated :: "jsval list" where
  "dated = [JObj [(''_id'', JStr ''a''), (''name'', JStr ''Widget''), (''price'', JNum 9.99),
                  (''inStock'', JBool True), (''createdAt'', JDate today0)]]"

definition w_dated :: world where
  "w_dated = w_miss\<lparr>productsCollection := dated\<rparr>"

text \<open>
  The language's serializer and parser as far as the runs below meet them, as two tables:
  the texts of the listings of \<open>w_miss\<close> and \<open>w_dated\<close> and of the empty listing, as
  \<^verbatim>\<open>JSON.stringify\<close> writes them, and what \<^verbatim>\<open>JSON.parse\<close> gives for those texts and for
  the text \<^verbatim>\<open>oops\<close>, on which it throws. Of a value or a text outside the tables nothing
  is said.
\<close>

definition dq :: string where
  "dq = [CHR 0x22]"

definition miss_text :: string where
  "miss_text = ''[{'' @ dq @ ''_id'' @ dq @ '':'' @ dq @ ''a'' @ dq @ '','' @ dq @ ''price'' @ dq @ '':9.99}]''"

definition dated_text :: string where
  "dated_text = ''[{'' @ dq @ ''_id'' @ dq @ '':'' @ dq @ ''a'' @ dq @ '',''
                       @ dq @ ''name'' @ dq @ '':'' @ dq @ ''Widget'' @ dq @ '',''
                       @ dq @ ''price'' @ dq @ '':9.99,''
                       @ dq @ ''inStock'' @ dq @ '':true,''
                       @ dq @ ''createdAt'' @ dq @ '':'' @ dq @ today0 @ dq @ ''}]''"

definition dated_copy :: "jsval list" where
  "dated_copy = [JObj [(''_id'', JStr ''a''), (''name'', JStr ''Widget''), (''price'', JNum 9.99),
                       (''inStock'', JBool True), (''createdAt'', JStr today0)]]"

definition sample_JSON :: JSON where
  "sample_JSON =
     \<lparr>stringify = (\<lambda>v. the (map_of [(JArr dated, dated_text),
                                     (JArr (productsCollection w_miss), miss_text),
                                     (JArr [], ''[]'')] v)),
      parse = (\<lambda>s. the (map_of [(dated_text, Inr (JArr dated_copy)),
                                 (miss_text, Inr (JArr (productsCollection w_miss))),
                                 (''[]'', Inr (JArr [])),
                                 (''oops'', Inl (JSError ''Unexpected token o in JSON at position 0''))] s))\<rparr>"

section \<open>The cache-through read path\<close>

lemmas sample_defs = sample_JSON_def w_miss_def w_hit_def w_blank_def w_dated_def dated_def dated_copy_def
  dated_text_def miss_text_def dq_def today0_def

text \<open>
  C1, as the code has it. On \<^verbatim>\<open>GET /products-cached\<close>, when the read of the cache succeeds:
  if the cache holds under \<^verbatim>\<open>products\<close> a value that is not the empty string and that
  deserializes to \<open>d\<close>, the handler answers \<open>d\<close> and makes no store query and no cache
  write; if the cache holds no value, or holds the empty string (and the store query and
  the cache write succeed), the handler makes exactly one store query, the unfiltered
  \<^verbatim>\<open>find({})\<close>, exactly one cache write, of the serialized listing under \<^verbatim>\<open>products\<close> with a
  lifetime of 3600 seconds, and answers the listing it queried.
\<close>

theorem products_cached_hit_and_miss:
  assumes "faults w (RedisGet ''products'') = None"
  shows "(cached w ''products'' = Some v \<and> v \<noteq> [] \<and> parse J v = Inr d \<longrightarrow>
            fst (get_products_cached J w) = res_json 200 d
            \<and> store_queries (added w (snd (get_products_cached J w))) = []
            \<and> cache_writes (added w (snd (get_products_cached J w))) = [])
       \<and> ((cached w ''products'' = None \<or> cached w ''products'' = Some []) \<and> faults w Find = None
            \<and> faults w (RedisSet ''products'' (stringify J (JArr (productsCollection w))) 3600) = None \<longrightarrow>
            fst (get_products_cached J w) = res_json 200 (JArr (productsCollection w))
            \<and> store_queries (added w (snd (get_products_cached J w))) = [Find]
            \<and> cache_writes (added w (snd (get_products_cached J w)))
                = [RedisSet ''products'' (stringify J (JArr (productsCollection w))) 3600])"
proof (intro conjI impI)
  assume h: "cached w ''products'' = Some v \<and> v \<noteq> [] \<and> parse J v = Inr d"
  from h assms show "fst (get_products_cached J w) = res_json 200 d"
    by (simp add: get_products_cached_def redis_get_def Let_def)
  from h assms show "store_queries (added w (snd (get_products_cached J w))) = []"
    by (simp add: get_products_cached_def redis_get_def Let_def emit_def added_def
        store_queries_def calls_def List.map_filter_simps)
  from h assms show "cache_writes (added w (snd (get_products_cached J w))) = []"
    by (simp add: get_products_cached_def redis_get_def Let_def emit_def added_def
        cache_writes_def calls_def List.map_filter_simps)
next
  assume h: "(cached w ''products'' = None \<or> cached w ''products'' = Some []) \<and> faults w Find = None
            \<and> faults w (RedisSet ''products'' (stringify J (JArr (productsCollection w))) 3600) = None"
  from h assms show "fst (get_products_cached J w) = res_json 200 (JArr (productsCollection w))"
    by (auto simp add: get_products_cached_def redis_get_def find_all_def redis_set_def Let_def emit_def)
  from h assms show "store_queries (added w (snd (get_products_cached J w))) = [Find]"
    by (auto simp add: get_products_cached_def redis_get_def find_all_def redis_set_def Let_def emit_def
        after_set_def added_def store_queries_def calls_def List.map_filter_simps)
  from h assms show "cache_writes (added w (snd (get_products_cached J w)))
                = [RedisSet ''products'' (stringify J (JArr (productsCollection w))) 3600]"
    by (auto simp add: get_products_cached_def redis_get_def find_all_def redis_set_def Let_def emit_def
        after_set_def added_def cache_writes_def calls_def List.map_filter_simps)
qed

theorem products_cached_hit_and_miss_witness:
  "(faults w_hit (RedisGet ''products'') = None
    \<and> cached w_hit ''products'' = Some ''[]'' \<and> ''[]'' \<noteq> [] \<and> parse sample_JSON ''[]'' = Inr (JArr [])
    \<and> fst (get_products_cached sample_JSON w_hit) = res_json 200 (JArr [])
    \<and> store_queries (added w_hit (snd (get_products_cached sample_JSON w_hit))) = []
    \<and> cache_writes (added w_hit (snd (get_products_cached sample_JSON w_hit))) = [])
   \<and> (faults w_miss (RedisGet ''products'') = None
    \<and> cached w_miss ''products'' = None \<and> faults w_miss Find = None
    \<and> faults w_miss (RedisSet ''products'' (stringify sample_JSON (JArr (productsCollection w_miss))) 3600) = None
    \<and> fst (get_products_cached sample_JSON w_miss) = res_json 200 (JArr (productsCollection w_miss))
    \<and> store_queries (added w_miss (snd (get_products_cached sample_JSON w_miss))) = [Find]
    \<and> cache_writes (added w_miss (snd (get_products_cached sample_JSON w_miss)))
        = [RedisSet ''products'' (stringify sample_JSON (JArr (productsCollection w_miss))) 3600])
   \<and> (faults w_blank (RedisGet ''products'') = None
    \<and> cached w_blank ''products'' = Some [] \<and> faults w_blank Find = None
    \<and> faults w_blank (RedisSet ''products'' (stringify sample_JSON (JArr (productsCollection w_blank))) 3600) = None
    \<and> fst (get_products_cached sample_JSON w_blank) = res_json 200 (JArr (productsCollection w_blank))
    \<and> store_queries (added w_blank (snd (get_products_cached sample_JSON w_blank))) = [Find]
    \<and> cache_writes (added w_blank (snd (get_products_cached sample_JSON w_blank)))
        = [RedisSet ''products'' (stringify sample_JSON (JArr (productsCollection w_blank))) 3600])"
proof -
  have a1: "faults w_hit (RedisGet ''products'') = None"
    by (simp add: w_hit_def w_miss_def)
  have a2: "cached w_hit ''products'' = Some ''[]'' \<and> ''[]'' \<noteq> [] \<and> parse sample_JSON ''[]'' = Inr (JArr [])"
    by (simp add: sample_defs cached_def)
  have b1: "faults w_miss (RedisGet ''products'') = None"
    by (simp add: w_miss_def)
  have b2: "cached w_miss ''products'' = None \<and> faults w_miss Find = None
      \<and> faults w_miss (RedisSet ''products'' (stringify sample_JSON (JArr (productsCollection w_miss))) 3600) = None"
    by (simp add: w_miss_def cached_def)
  have c1: "faults w_blank (RedisGet ''products'') = None"
    by (simp add: w_blank_def w_miss_def)
  have c2: "cached w_blank ''products'' = Some [] \<and> faults w_blank Find = None
      \<and> faults w_blank (RedisSet ''products'' (stringify sample_JSON (JArr (productsCollection w_blank))) 3600) = None"
    by (simp add: w_blank_def w_miss_def cached_def)
  show ?thesis
    using a1 a2 b1 b2 c1 c2
      products_cached_hit_and_miss [OF a1, of "''[]''" sample_JSON "JArr []"]
      products_cached_hit_and_miss [OF b1, of _ sample_JSON]
      products_cached_hit_and_miss [OF c1, of _ sample_JSON]
    by blast
qed

text \<open>
  C1 as stated fails: with the empty string held under \<^verbatim>\<open>products\<close>, the cache holds a
  value, and the handler takes it for a miss: it queries the store and writes the cache;
  with a text held that \<^verbatim>\<open>JSON.parse\<close> throws on, the handler answers 500.
\<close>

theorem cached_value_is_not_always_answered:
  "cached w_blank ''products'' = Some []
   \<and> faults w_blank (RedisGet ''products'') = None
   \<and> store_queries (added w_blank (snd (get_products_cached sample_JSON w_blank))) = [Find]
   \<and> cache_writes (added w_blank (snd (get_products_cached sample_JSON w_blank)))
       = [RedisSet ''products'' miss_text 3600]
   \<and> fst (get_products_cached sample_JSON w_blank) = res_json 200 (JArr (productsCollection w_blank))
   \<and> cached w_junk ''products'' = Some ''oops''
   \<and> faults w_junk (RedisGet ''products'') = None
   \<and> status (fst (get_products_cached sample_JSON w_junk)) = 500"
  by (simp add: get_products_cached_def redis_get_def find_all_def redis_set_def Let_def emit_def catch_def
      res_json_def after_set_def added_def store_queries_def cache_writes_def calls_def cached_def
      sample_defs w_junk_def)

section \<open>Invalidation on write\<close>

lemma insertOne_outcome:
  "ok (insertOne b w) \<Longrightarrow>
     events (snd (insertOne b w)) = events w @ [Returned (InsertOne b)] \<and> faults (snd (insertOne b w)) = faults w"
  "\<not> ok (insertOne b w) \<Longrightarrow>
     (\<exists>e. events (snd (insertOne b w)) = events w @ [Threw (InsertOne b) e]) \<and> faults (snd (insertOne b w)) = faults w"
  by (auto simp: ok_def insertOne_def emit_def Let_def split: option.splits if_splits prod.splits)

lemma updateOne_outcome:
  "ok (updateOne i p w) \<Longrightarrow>
     events (snd (updateOne i p w)) = events w @ [Returned (UpdateOne i p)] \<and> faults (snd (updateOne i p w)) = faults w"
  "\<not> ok (updateOne i p w) \<Longrightarrow>
     (\<exists>e. events (snd (updateOne i p w)) = events w @ [Threw (UpdateOne i p) e]) \<and> faults (snd (updateOne i p w)) = faults w"
  by (auto simp: ok_def updateOne_def emit_def Let_def split: option.splits if_splits prod.splits)

lemma deleteOne_outcome:
  "ok (deleteOne i w) \<Longrightarrow>
     events (snd (deleteOne i w)) = events w @ [Returned (DeleteOne i)] \<and> faults (snd (deleteOne i w)) = faults w"
  "\<not> ok (deleteOne i w) \<Longrightarrow>
     (\<exists>e. events (snd (deleteOne i w)) = events w @ [Threw (DeleteOne i) e]) \<and> faults (snd (deleteOne i w)) = faults w"
  by (auto simp: ok_def deleteOne_def emit_def Let_def split: option.splits if_splits prod.splits)

lemma insertMany_outcome:
  "ok (insertMany bs w) \<Longrightarrow>
     events (snd (insertMany bs w)) = events w @ [Returned (InsertMany bs)] \<and> faults (snd (insertMany bs w)) = faults w"
  "\<not> ok (insertMany bs w) \<Longrightarrow>
     (\<exists>e. events (snd (insertMany bs w)) = events w @ [Threw (InsertMany bs) e]) \<and> faults (snd (insertMany bs w)) = faults w"
  by (auto simp: ok_def insertMany_def emit_def Let_def split: option.splits if_splits prod.splits)

lemmas trace_simps = redis_del_def after_del_def catch_def emit_def added_def calls_def ok_def

lemma post_products_trace:
  "ok (insertOne b w) \<Longrightarrow>
     calls (added w (snd (post_products b w))) = [InsertOne b, RedisDel ''products'']
     \<and> take 1 (added w (snd (post_products b w))) = [Returned (InsertOne b)]"
  "\<not> ok (insertOne b w) \<Longrightarrow> calls (added w (snd (post_products b w))) = [InsertOne b]"
  using insertOne_outcome[of b w]
  by (cases "insertOne b w"; cases "fst (insertOne b w)"; auto simp add: post_products_def trace_simps split: option.splits)+

lemma put_products_id_trace:
  "ok (updateOne i p w) \<Longrightarrow>
     calls (added w (snd (put_products_id i p w))) = [UpdateOne i p, RedisDel ''products'']
     \<and> take 1 (added w (snd (put_products_id i p w))) = [Returned (UpdateOne i p)]"
  "\<not> ok (updateOne i p w) \<Longrightarrow> calls (added w (snd (put_products_id i p w))) = [UpdateOne i p]"
  using updateOne_outcome[of i p w]
  by (cases "updateOne i p w"; cases "fst (updateOne i p w)"; auto simp add: put_products_id_def trace_simps split: option.splits)+

lemma delete_products_id_trace:
  "ok (deleteOne i w) \<Longrightarrow>
     calls (added w (snd (delete_products_id i w))) = [DeleteOne i, RedisDel ''products'']
     \<and> take 1 (added w (snd (delete_products_id i w))) = [Returned (DeleteOne i)]"
  "\<not> ok (deleteOne i w) \<Longrightarrow> calls (added w (snd (delete_products_id i w))) = [DeleteOne i]"
  using deleteOne_outcome[of i w]
  by (cases "deleteOne i w"; cases "fst (deleteOne i w)"; auto simp add: delete_products_id_def trace_simps split: option.splits)+

lemma post_populate_trace:
  "ok (insertMany (testProducts price pick stock today) w) \<Longrightarrow>
     calls (added w (snd (post_populate price pick stock today w))) = [InsertMany (testProducts price pick stock today), RedisDel ''products'']
     \<and> take 1 (added w (snd (post_populate price pick stock today w))) = [Returned (InsertMany (testProducts price pick stock today))]"
  "\<not> ok (insertMany (testProducts price pick stock today) w) \<Longrightarrow> calls (added w (snd (post_populate price pick stock today w))) = [InsertMany (testProducts price pick stock today)]"
  using insertMany_outcome[of "testProducts price pick stock today" w]
  by (cases "insertMany (testProducts price pick stock today) w"; cases "fst (insertMany (testProducts price pick stock today) w)"; auto simp add: post_populate_def trace_simps split: option.splits)+

text \<open>
  C5. For each mutation (insert one on \<^verbatim>\<open>POST /products\<close>, update on
  \<^verbatim>\<open>PUT /products/:id\<close>, delete on \<^verbatim>\<open>DELETE /products/:id\<close>, bulk insert on
  \<^verbatim>\<open>POST /populate\<close>): when the store mutation succeeds, the handler's calls are the
  mutation and then the deletion of the cache key \<^verbatim>\<open>products\<close>, in this order, the
  mutation having returned before the deletion is issued; when the store mutation fails,
  no deletion is issued at all, so a deletion never precedes the mutation.
\<close>

theorem invalidation_follows_mutation:
  "(ok (insertOne b w) \<longrightarrow>
      calls (added w (snd (post_products b w))) = [InsertOne b, RedisDel ''products'']
      \<and> take 1 (added w (snd (post_products b w))) = [Returned (InsertOne b)])
   \<and> (ok (updateOne i p w) \<longrightarrow>
      calls (added w (snd (put_products_id i p w))) = [UpdateOne i p, RedisDel ''products'']
      \<and> take 1 (added w (snd (put_products_id i p w))) = [Returned (UpdateOne i p)])
   \<and> (ok (deleteOne i w) \<longrightarrow>
      calls (added w (snd (delete_products_id i w))) = [DeleteOne i, RedisDel ''products'']
      \<and> take 1 (added w (snd (delete_products_id i w))) = [Returned (DeleteOne i)])
   \<and> (ok (insertMany (testProducts price pick stock today) w) \<longrightarrow>
      calls (added w (snd (post_populate price pick stock today w)))
        = [InsertMany (testProducts price pick stock today), RedisDel ''products'']
      \<and> take 1 (added w (snd (post_populate price pick stock today w)))
        = [Returned (InsertMany (testProducts price pick stock today))])
   \<and> (\<not> ok (insertOne b w) \<longrightarrow> calls (added w (snd (post_products b w))) = [InsertOne b])
   \<and> (\<not> ok (updateOne i p w) \<longrightarrow> calls (added w (snd (put_products_id i p w))) = [UpdateOne i p])
   \<and> (\<not> ok (deleteOne i w) \<longrightarrow> calls (added w (snd (delete_products_id i w))) = [DeleteOne i])
   \<and> (\<not> ok (insertMany (testProducts price pick stock today) w) \<longrightarrow>
      calls (added w (snd (post_populate price pick stock today w)))
        = [InsertMany (testProducts price pick stock today)])"
  using post_products_trace[of b w] put_products_id_trace[of i p w] delete_products_id_trace[of i w]
    post_populate_trace[of price pick stock today w]
  by blast

lemma insert_each_fresh:
  assumes "\<forall>b \<in> set bs. map_of b ''_id'' = None"
    and "\<forall>d \<in> set ds. \<forall>m. field ''_id'' d = Some (JObjectId m) \<longrightarrow> m < n"
  shows "\<exists>ds'. insert_each bs n ds = (None, n + length bs, ds')"
  using assms
proof (induction bs arbitrary: n ds)
  case Nil
  then show ?case by simp
next
  case (Cons b bs)
  have nodup: "\<not> duplicate_key (with_id n b) ds"
    using Cons.prems by (auto simp: duplicate_key_def with_id_def)
  have inv: "\<forall>d \<in> set (ds @ [JObj (with_id n b)]). \<forall>m. field ''_id'' d = Some (JObjectId m) \<longrightarrow> m < Suc n"
    using Cons.prems by (auto simp: with_id_def field_def less_Suc_eq)
  have rest: "\<forall>b \<in> set bs. map_of b ''_id'' = None"
    using Cons.prems by simp
  from Cons.IH[OF rest inv]
  obtain ds' where "insert_each bs (Suc n) (ds @ [JObj (with_id n b)]) = (None, Suc n + length bs, ds')"
    by auto
  with nodup show ?case by (simp add: Let_def)
qed

lemma testProducts_no_id: "\<forall>b \<in> set (testProducts price pick stock today). map_of b ''_id'' = None"
  by (auto simp: testProducts_def)

lemma insertMany_fresh:
  assumes "faults w (InsertMany bs) = None"
    and "\<forall>b \<in> set bs. map_of b ''_id'' = None"
    and "\<forall>d \<in> set (productsCollection w). \<forall>m. field ''_id'' d = Some (JObjectId m) \<longrightarrow> m < next_oid w"
  shows "fst (insertMany bs w) = Inr (length bs)"
proof -
  from insert_each_fresh[OF assms(2) assms(3)]
  obtain ds' where "insert_each bs (next_oid w) (productsCollection w) = (None, next_oid w + length bs, ds')"
    by auto
  with assms(1) show ?thesis by (simp add: insertMany_def)
qed

lemmas world_defs = w_miss_def w_hit_def w_get_down_def w_set_down_def w_del_down_def w_store_down_def
  unreachable_def widget_def

lemma populate_ok_hit: "ok (insertMany (testProducts of_nat id even today0) w_hit)"
  using insertMany_fresh[of w_hit "testProducts of_nat id even today0"] testProducts_no_id[of of_nat id even today0]
  by (simp add: world_defs field_def ok_def)

lemma populate_ok_del_down: "ok (insertMany (testProducts of_nat id even today0) w_del_down)"
  using insertMany_fresh[of w_del_down "testProducts of_nat id even today0"] testProducts_no_id[of of_nat id even today0]
  by (simp add: world_defs field_def ok_def)

theorem invalidation_follows_mutation_witness:
  "(ok (insertOne widget w_hit)
      \<and> calls (added w_hit (snd (post_products widget w_hit))) = [InsertOne widget, RedisDel ''products'']
      \<and> take 1 (added w_hit (snd (post_products widget w_hit))) = [Returned (InsertOne widget)])
   \<and> (ok (updateOne ''a'' widget w_hit)
      \<and> calls (added w_hit (snd (put_products_id ''a'' widget w_hit))) = [UpdateOne ''a'' widget, RedisDel ''products'']
      \<and> take 1 (added w_hit (snd (put_products_id ''a'' widget w_hit))) = [Returned (UpdateOne ''a'' widget)])
   \<and> (ok (deleteOne ''a'' w_hit)
      \<and> calls (added w_hit (snd (delete_products_id ''a'' w_hit))) = [DeleteOne ''a'', RedisDel ''products'']
      \<and> take 1 (added w_hit (snd (delete_products_id ''a'' w_hit))) = [Returned (DeleteOne ''a'')])
   \<and> (ok (insertMany (testProducts of_nat id even today0) w_hit)
      \<and> calls (added w_hit (snd (post_populate of_nat id even today0 w_hit)))
        = [InsertMany (testProducts of_nat id even today0), RedisDel ''products'']
      \<and> take 1 (added w_hit (snd (post_populate of_nat id even today0 w_hit)))
        = [Returned (InsertMany (testProducts of_nat id even today0))])
   \<and> (\<not> ok (insertOne widget w_store_down)
      \<and> calls (added w_store_down (snd (post_products widget w_store_down))) = [InsertOne widget])
   \<and> (\<not> ok (updateOne ''a'' widget w_store_down)
      \<and> calls (added w_store_down (snd (put_products_id ''a'' widget w_store_down))) = [UpdateOne ''a'' widget])
   \<and> (\<not> ok (deleteOne ''a'' w_store_down)
      \<and> calls (added w_store_down (snd (delete_products_id ''a'' w_store_down))) = [DeleteOne ''a''])
   \<and> (\<not> ok (insertMany (testProducts of_nat id even today0) w_store_down)
      \<and> calls (added w_store_down (snd (post_populate of_nat id even today0 w_store_down)))
        = [InsertMany (testProducts of_nat id even today0)])"
proof -
  have a1: "ok (insertOne widget w_hit)"
    by (simp add: ok_def insertOne_def world_defs with_id_def duplicate_key_def field_def Let_def)
  have a2: "ok (updateOne ''a'' widget w_hit)"
    by (simp add: ok_def updateOne_def world_defs has_id_def field_def apply_set_def changes_id_def)
  have a3: "ok (deleteOne ''a'' w_hit)"
    by (simp add: ok_def deleteOne_def world_defs has_id_def field_def)
  note a4 = populate_ok_hit
  have b1: "\<not> ok (insertOne widget w_store_down)"
    by (simp add: ok_def insertOne_def world_defs)
  have b2: "\<not> ok (updateOne ''a'' widget w_store_down)"
    by (simp add: ok_def updateOne_def world_defs)
  have b3: "\<not> ok (deleteOne ''a'' w_store_down)"
    by (simp add: ok_def deleteOne_def world_defs)
  have b4: "\<not> ok (insertMany (testProducts of_nat id even today0) w_store_down)"
    by (simp add: ok_def insertMany_def world_defs)
  show ?thesis
    using a1 a2 a3 a4 b1 b2 b3 b4
      invalidation_follows_mutation [of widget w_hit "''a''" widget of_nat id even today0]
      invalidation_follows_mutation [of widget w_store_down "''a''" widget of_nat id even today0]
    by blast
qed

section \<open>Failures of the cache on the read path\<close>

text \<open>
  C2, as the code has it. On \<^verbatim>\<open>GET /products-cached\<close>, when the read of the cache fails
  with an error \<open>e\<close>, the \<^verbatim>\<open>catch\<close> of the handler takes over: the error is written to
  the console and the answer is 500 with the message of \<open>e\<close>; the store is not queried.
\<close>

theorem cache_read_failure_answers_500:
  assumes "faults w (RedisGet ''products'') = Some e"
  shows "fst (get_products_cached J w) = res_json 500 (error_body e)
       \<and> added w (snd (get_products_cached J w))
           = [Threw (RedisGet ''products'') e, ConsoleError ''Error en /products-cached:'' e]
       \<and> store_queries (added w (snd (get_products_cached J w))) = []"
  using assms
  by (simp add: get_products_cached_def redis_get_def catch_def emit_def added_def store_queries_def calls_def)

theorem cache_read_failure_answers_500_witness:
  "faults w_get_down (RedisGet ''products'') = Some unreachable
   \<and> fst (get_products_cached sample_JSON w_get_down) = res_json 500 (error_body unreachable)
   \<and> added w_get_down (snd (get_products_cached sample_JSON w_get_down))
       = [Threw (RedisGet ''products'') unreachable, ConsoleError ''Error en /products-cached:'' unreachable]
   \<and> store_queries (added w_get_down (snd (get_products_cached sample_JSON w_get_down))) = []"
proof -
  have a: "faults w_get_down (RedisGet ''products'') = Some unreachable"
    by (simp add: w_get_down_def)
  show ?thesis using a cache_read_failure_answers_500 [OF a, of sample_JSON] by blast
qed

text \<open>
  C2 as stated fails: with the cache unreachable and the store ready to answer, the
  handler does not fall through to the store and does not answer the listing.
\<close>

theorem cache_read_failure_not_a_miss:
  "faults w_get_down (RedisGet ''products'') = Some unreachable
   \<and> faults w_get_down Find = None
   \<and> status (fst (get_products_cached sample_JSON w_get_down)) = 500
   \<and> fst (get_products_cached sample_JSON w_get_down) \<noteq> res_json 200 (JArr (productsCollection w_get_down))
   \<and> store_queries (added w_get_down (snd (get_products_cached sample_JSON w_get_down))) = []"
  by (simp add: get_products_cached_def redis_get_def catch_def emit_def added_def store_queries_def
      calls_def res_json_def world_defs)

text \<open>
  C3, as the code has it. On \<^verbatim>\<open>GET /products-cached\<close> with nothing cached, when the
  store query succeeds and the cache write that follows fails with an error \<open>e\<close>, the
  \<^verbatim>\<open>catch\<close> of the handler takes over: the error is written to the console and the
  answer is 500 with the message of \<open>e\<close>, not the listing.
\<close>

theorem cache_write_failure_answers_500:
  assumes "faults w (RedisGet ''products'') = None"
    and "cached w ''products'' = None"
    and "faults w Find = None"
    and "faults w (RedisSet ''products'' (stringify J (JArr (productsCollection w))) 3600) = Some e"
  shows "fst (get_products_cached J w) = res_json 500 (error_body e)
       \<and> store_queries (added w (snd (get_products_cached J w))) = [Find]
       \<and> ConsoleError ''Error en /products-cached:'' e \<in> set (added w (snd (get_products_cached J w)))"
  using assms
  by (simp add: get_products_cached_def redis_get_def redis_set_def find_all_def catch_def emit_def
      after_set_def added_def store_queries_def calls_def Let_def)

theorem cache_write_failure_answers_500_witness:
  "faults w_set_down (RedisGet ''products'') = None
   \<and> cached w_set_down ''products'' = None
   \<and> faults w_set_down Find = None
   \<and> faults w_set_down (RedisSet ''products'' (stringify sample_JSON (JArr (productsCollection w_set_down))) 3600)
       = Some unreachable
   \<and> fst (get_products_cached sample_JSON w_set_down) = res_json 500 (error_body unreachable)
   \<and> store_queries (added w_set_down (snd (get_products_cached sample_JSON w_set_down))) = [Find]
   \<and> ConsoleError ''Error en /products-cached:'' unreachable
       \<in> set (added w_set_down (snd (get_products_cached sample_JSON w_set_down)))"
proof -
  have a: "faults w_set_down (RedisGet ''products'') = None"
    and b: "cached w_set_down ''products'' = None"
    and c: "faults w_set_down Find = None"
    and d: "faults w_set_down (RedisSet ''products'' (stringify sample_JSON (JArr (productsCollection w_set_down))) 3600)
       = Some unreachable"
    by (simp_all add: w_set_down_def w_miss_def cached_def)
  show ?thesis using a b c d cache_write_failure_answers_500 [OF a b c d] by blast
qed

text \<open>
  C3 as stated fails: the store query succeeds, the cache write fails, and the request
  fails with it.
\<close>

theorem cache_write_failure_fails_the_read:
  "faults w_set_down (RedisGet ''products'') = None
   \<and> faults w_set_down Find = None
   \<and> faults w_set_down (RedisSet ''products'' (stringify sample_JSON (JArr (productsCollection w_set_down))) 3600)
       = Some unreachable
   \<and> store_queries (added w_set_down (snd (get_products_cached sample_JSON w_set_down))) = [Find]
   \<and> status (fst (get_products_cached sample_JSON w_set_down)) = 500
   \<and> fst (get_products_cached sample_JSON w_set_down) \<noteq> res_json 200 (JArr (productsCollection w_set_down))"
  by (simp add: get_products_cached_def redis_get_def redis_set_def find_all_def catch_def emit_def
      after_set_def added_def store_queries_def calls_def res_json_def world_defs cached_def Let_def)

section \<open>Failure of the invalidation\<close>

lemma post_products_del_fails:
  assumes "faults w (RedisDel ''products'') = Some e" and "ok (insertOne b w)"
  shows "fst (post_products b w) = res_json 500 (error_body e)
       \<and> productsCollection (snd (post_products b w)) = productsCollection (snd (insertOne b w))
       \<and> ConsoleError ''Error al crear producto:'' e \<in> set (added w (snd (post_products b w)))"
  using assms insertOne_outcome(1)[OF assms(2)]
  by (cases "insertOne b w"; cases "fst (insertOne b w)"; simp add: post_products_def trace_simps)

lemma put_products_id_del_fails:
  assumes "faults w (RedisDel ''products'') = Some e" and "ok (updateOne i p w)"
  shows "fst (put_products_id i p w) = res_json 500 (error_body e)
       \<and> productsCollection (snd (put_products_id i p w)) = productsCollection (snd (updateOne i p w))
       \<and> ConsoleError ''Error al actualizar producto:'' e \<in> set (added w (snd (put_products_id i p w)))"
  using assms updateOne_outcome(1)[OF assms(2)]
  by (cases "updateOne i p w"; cases "fst (updateOne i p w)"; simp add: put_products_id_def trace_simps)

lemma delete_products_id_del_fails:
  assumes "faults w (RedisDel ''products'') = Some e" and "ok (deleteOne i w)"
  shows "fst (delete_products_id i w) = res_json 500 (error_body e)
       \<and> productsCollection (snd (delete_products_id i w)) = productsCollection (snd (deleteOne i w))
       \<and> ConsoleError ''Error al eliminar producto:'' e \<in> set (added w (snd (delete_products_id i w)))"
  using assms deleteOne_outcome(1)[OF assms(2)]
  by (cases "deleteOne i w"; cases "fst (deleteOne i w)"; simp add: delete_products_id_def trace_simps)

lemma post_populate_del_fails:
  assumes "faults w (RedisDel ''products'') = Some e"
    and "ok (insertMany (testProducts price pick stock today) w)"
  shows "fst (post_populate price pick stock today w) = res_json 500 (error_body e)
       \<and> productsCollection (snd (post_populate price pick stock today w))
           = productsCollection (snd (insertMany (testProducts price pick stock today) w))
       \<and> ConsoleError ''Error en /populate:'' e \<in> set (added w (snd (post_populate price pick stock today w)))"
  using assms insertMany_outcome(1)[OF assms(2)]
  by (cases "insertMany (testProducts price pick stock today) w";
      cases "fst (insertMany (testProducts price pick stock today) w)"; simp add: post_populate_def trace_simps)

text \<open>
  C4, as the code has it. For each mutation request (\<^verbatim>\<open>POST /products\<close>,
  \<^verbatim>\<open>PUT /products/:id\<close>, \<^verbatim>\<open>DELETE /products/:id\<close>, \<^verbatim>\<open>POST /populate\<close>): when the store
  mutation succeeds and the deletion of the cache key that follows fails with an error
  \<open>e\<close>, the answer is 500 with the message of \<open>e\<close>, the error is written to the console,
  and the store keeps the mutation.
\<close>

theorem invalidation_failure_answers_500:
  assumes "faults w (RedisDel ''products'') = Some e"
  shows "(ok (insertOne b w) \<longrightarrow>
            fst (post_products b w) = res_json 500 (error_body e)
            \<and> productsCollection (snd (post_products b w)) = productsCollection (snd (insertOne b w))
            \<and> ConsoleError ''Error al crear producto:'' e \<in> set (added w (snd (post_products b w))))
       \<and> (ok (updateOne i p w) \<longrightarrow>
            fst (put_products_id i p w) = res_json 500 (error_body e)
            \<and> productsCollection (snd (put_products_id i p w)) = productsCollection (snd (updateOne i p w))
            \<and> ConsoleError ''Error al actualizar producto:'' e \<in> set (added w (snd (put_products_id i p w))))
       \<and> (ok (deleteOne i w) \<longrightarrow>
            fst (delete_products_id i w) = res_json 500 (error_body e)
            \<and> productsCollection (snd (delete_products_id i w)) = productsCollection (snd (deleteOne i w))
            \<and> ConsoleError ''Error al eliminar producto:'' e \<in> set (added w (snd (delete_products_id i w))))
       \<and> (ok (insertMany (testProducts price pick stock today) w) \<longrightarrow>
            fst (post_populate price pick stock today w) = res_json 500 (error_body e)
            \<and> productsCollection (snd (post_populate price pick stock today w))
                = productsCollection (snd (insertMany (testProducts price pick stock today) w))
            \<and> ConsoleError ''Error en /populate:'' e \<in> set (added w (snd (post_populate price pick stock today w))))"
  using post_products_del_fails[OF assms, of b] put_products_id_del_fails[OF assms, of i p]
    delete_products_id_del_fails[OF assms, of i] post_populate_del_fails[OF assms, of price pick stock today]
  by blast

lemma del_down_fault: "faults w_del_down (RedisDel ''products'') = Some unreachable"
  by (simp add: w_del_down_def)

lemma del_down_ok:
  "ok (insertOne widget w_del_down)"
  "ok (updateOne ''a'' widget w_del_down)"
  "ok (deleteOne ''a'' w_del_down)"
  by (simp_all add: ok_def insertOne_def updateOne_def deleteOne_def world_defs with_id_def duplicate_key_def
      has_id_def field_def apply_set_def changes_id_def Let_def)

theorem invalidation_failure_answers_500_witness:
  "faults w_del_down (RedisDel ''products'') = Some unreachable
   \<and> (ok (insertOne widget w_del_down)
       \<and> fst (post_products widget w_del_down) = res_json 500 (error_body unreachable)
       \<and> productsCollection (snd (post_products widget w_del_down))
           = productsCollection (snd (insertOne widget w_del_down))
       \<and> ConsoleError ''Error al crear producto:'' unreachable
           \<in> set (added w_del_down (snd (post_products widget w_del_down))))
   \<and> (ok (updateOne ''a'' widget w_del_down)
       \<and> fst (put_products_id ''a'' widget w_del_down) = res_json 500 (error_body unreachable)
       \<and> productsCollection (snd (put_products_id ''a'' widget w_del_down))
           = productsCollection (snd (updateOne ''a'' widget w_del_down))
       \<and> ConsoleError ''Error al actualizar producto:'' unreachable
           \<in> set (added w_del_down (snd (put_products_id ''a'' widget w_del_down))))
   \<and> (ok (deleteOne ''a'' w_del_down)
       \<and> fst (delete_products_id ''a'' w_del_down) = res_json 500 (error_body unreachable)
       \<and> productsCollection (snd (delete_products_id ''a'' w_del_down))
           = productsCollection (snd (deleteOne ''a'' w_del_down))
       \<and> ConsoleError ''Error al eliminar producto:'' unreachable
           \<in> set (added w_del_down (snd (delete_products_id ''a'' w_del_down))))
   \<and> (ok (insertMany (testProducts of_nat id even today0) w_del_down)
       \<and> fst (post_populate of_nat id even today0 w_del_down) = res_json 500 (error_body unreachable)
       \<and> productsCollection (snd (post_populate of_nat id even today0 w_del_down))
           = productsCollection (snd (insertMany (testProducts of_nat id even today0) w_del_down))
       \<and> ConsoleError ''Error en /populate:'' unreachable
           \<in> set (added w_del_down (snd (post_populate of_nat id even today0 w_del_down))))"
  using del_down_fault del_down_ok populate_ok_del_down
    invalidation_failure_answers_500 [OF del_down_fault, of widget "''a''" widget of_nat id even today0]
  by blast

text \<open>
  C4 as stated fails: with the cache unreachable for the deletion, each of the four
  mutations is committed by the store and reported to the caller as failed.
\<close>

theorem invalidation_failure_fails_the_mutation:
  "faults w_del_down (RedisDel ''products'') = Some unreachable
   \<and> ok (insertOne widget w_del_down)
   \<and> status (fst (post_products widget w_del_down)) = 500
   \<and> ok (updateOne ''a'' widget w_del_down)
   \<and> status (fst (put_products_id ''a'' widget w_del_down)) = 500
   \<and> ok (deleteOne ''a'' w_del_down)
   \<and> status (fst (delete_products_id ''a'' w_del_down)) = 500
   \<and> ok (insertMany (testProducts of_nat id even today0) w_del_down)
   \<and> status (fst (post_populate of_nat id even today0 w_del_down)) = 500"
  using del_down_fault del_down_ok populate_ok_del_down
    post_products_del_fails[OF del_down_fault del_down_ok(1)]
    put_products_id_del_fails[OF del_down_fault del_down_ok(2)]
    delete_products_id_del_fails[OF del_down_fault del_down_ok(3)]
    post_populate_del_fails[OF del_down_fault populate_ok_del_down]
  by (simp add: res_json_def)

section \<open>Update and delete of an id that matches nothing\<close>

text \<open>
  C8. For \<^verbatim>\<open>PUT /products/:id\<close> and \<^verbatim>\<open>DELETE /products/:id\<close> with an id that matches no
  document of the store (the store and the cache answering): the answer is 200, not 404,
  with the store's result whose matched, modified and deleted counts are zero, and the
  cache key \<^verbatim>\<open>products\<close> is deleted all the same.
\<close>

theorem unmatched_id_answers_200:
  assumes "\<not> (\<exists>d \<in> set (productsCollection w). has_id i d)"
    and "faults w (RedisDel ''products'') = None"
  shows "(faults w (UpdateOne i p) = None \<longrightarrow>
            fst (put_products_id i p w) = res_json 200 (UpdateResult 0 0)
            \<and> calls (added w (snd (put_products_id i p w))) = [UpdateOne i p, RedisDel ''products'']
            \<and> redis (snd (put_products_id i p w)) ''products'' = None)
       \<and> (faults w (DeleteOne i) = None \<longrightarrow>
            fst (delete_products_id i w) = res_json 200 (DeleteResult 0)
            \<and> calls (added w (snd (delete_products_id i w))) = [DeleteOne i, RedisDel ''products'']
            \<and> redis (snd (delete_products_id i w)) ''products'' = None)"
proof -
  from assms(1) have nf: "find (has_id i) (productsCollection w) = None"
    by (simp add: find_None_iff)
  show ?thesis
    using nf assms(2)
    by (simp add: put_products_id_def delete_products_id_def updateOne_def deleteOne_def redis_del_def
        after_del_def emit_def added_def calls_def)
qed

theorem unmatched_id_answers_200_witness:
  "\<not> (\<exists>d \<in> set (productsCollection w_hit). has_id ''zzz'' d)
   \<and> faults w_hit (RedisDel ''products'') = None
   \<and> (faults w_hit (UpdateOne ''zzz'' widget) = None
       \<and> fst (put_products_id ''zzz'' widget w_hit) = res_json 200 (UpdateResult 0 0)
       \<and> calls (added w_hit (snd (put_products_id ''zzz'' widget w_hit))) = [UpdateOne ''zzz'' widget, RedisDel ''products'']
       \<and> redis (snd (put_products_id ''zzz'' widget w_hit)) ''products'' = None)
   \<and> (faults w_hit (DeleteOne ''zzz'') = None
       \<and> fst (delete_products_id ''zzz'' w_hit) = res_json 200 (DeleteResult 0)
       \<and> calls (added w_hit (snd (delete_products_id ''zzz'' w_hit))) = [DeleteOne ''zzz'', RedisDel ''products'']
       \<and> redis (snd (delete_products_id ''zzz'' w_hit)) ''products'' = None)"
proof -
  have a: "\<not> (\<exists>d \<in> set (productsCollection w_hit). has_id ''zzz'' d)"
    by (simp add: world_defs has_id_def field_def)
  have b: "faults w_hit (RedisDel ''products'') = None"
    and c: "faults w_hit (UpdateOne ''zzz'' widget) = None"
    and d: "faults w_hit (DeleteOne ''zzz'') = None"
    by (simp_all add: w_hit_def w_miss_def)
  show ?thesis using a b c d unmatched_id_answers_200 [OF a b, of widget] by blast
qed

section \<open>The statistics\<close>

text \<open>
  C9. When the collection is empty (and the store answers), \<^verbatim>\<open>GET /stats\<close> answers 200
  with \<^verbatim>\<open>undefined\<close> as the value given to \<^verbatim>\<open>res.json\<close>, which is sent as an empty body:
  the aggregation produces no group document, and the handler takes the first element
  of an empty result rather than a record with count 0.
\<close>

theorem stats_empty_collection:
  assumes "productsCollection w = []" and "faults w Aggregate = None"
  shows "fst (get_stats lt w) = \<lparr>status = 200, body = Undefined\<rparr>"
  using assms by (simp add: get_stats_def aggregate_def group_all_def res_json_def)

theorem stats_empty_collection_witness:
  "productsCollection w_bare = [] \<and> faults w_bare Aggregate = None
   \<and> fst (get_stats num_less w_bare) = \<lparr>status = 200, body = Undefined\<rparr>"
proof -
  have a: "productsCollection w_bare = []" and b: "faults w_bare Aggregate = None"
    by (simp_all add: w_bare_def w_miss_def)
  show ?thesis using a b stats_empty_collection [OF a b] by blast
qed

text \<open>
  C6 at a collection of two products of the one category \<^verbatim>\<open>Books\<close>: the answer of
  \<^verbatim>\<open>GET /stats\<close> has the total count, the average, the minimum and the maximum price,
  but its \<^verbatim>\<open>categoryCounts\<close> has two entries for \<^verbatim>\<open>Books\<close>, each with count 1, where a
  breakdown per category has the one entry \<^verbatim>\<open>Books\<close> with count 2.
\<close>

theorem stats_two_books:
  "fst (get_stats num_less w_books)
     = \<lparr>status = 200,
        body = Stats \<lparr>totalProducts = 2, avgPrice = Some 15, minPrice = JNum 10, maxPrice = JNum 20,
                      categoryCounts = [JObj [(''category'', JStr ''Books''), (''count'', JNum 1)],
                                        JObj [(''category'', JStr ''Books''), (''count'', JNum 1)]]\<rparr>\<rparr>
   \<and> per_category (productsCollection w_books) = [(JStr ''Books'', 2)]"
  by (simp add: get_stats_def aggregate_def group_all_def res_json_def w_books_def w_miss_def
      numeric_prices_def present_prices_def avg_def least_def greatest_def pushed_def field_def num_less_def
      per_category_def)

section \<open>The search\<close>









section \<open>A hit after a miss\<close>




end
